theory Spec2Isabelle
  imports Complex_Main
begin

section \<open>Gearbox vibration analysis: feature extraction and fault scoring\<close>

text \<open>
  A shallow embedding of \<^verbatim>\<open>backend/preprocessor.py\<close>, \<^verbatim>\<open>backend/analyzer.py\<close> and the
  analysis settings of \<^verbatim>\<open>config.py\<close>.

  Numbers: Python floats are read as the real numbers they denote (type \<open>real\<close>), so
  rounding, overflow and NaN are outside this model.  The theorems below concern what
  comparisons, the order of lists, strings and the exact value zero decide.  A property
  that rounding or overflow decides (a bound on a computed score for every input, an
  inequality between two sums, the mean of a constant sequence) is not stated.
  Python's \<^verbatim>\<open>min(a, b)\<close> and \<^verbatim>\<open>abs\<close> are \<open>min\<close> and \<open>abs\<close> on \<open>real\<close>.

  Data: the feature dictionaries built by dictionary literals with a fixed key set
  (\<^verbatim>\<open>time_features\<close>, \<^verbatim>\<open>freq_features\<close>, a fault hypothesis, the analysis result) are
  records.  The dictionaries built or read entry by entry (\<^verbatim>\<open>DAMAGE_LEVELS\<close>, the band
  table and \<^verbatim>\<open>frequency_bands\<close>) are association lists in insertion order, which is the
  order Python iterates them in; a subscript with a missing key is the error \<open>KeyError\<close>.

  Errors: every exception the modelled code can raise is a constructor of \<open>error\<close>, and a
  function that can raise returns \<open>error + 'a\<close>.

  Names: a method \<^verbatim>\<open>_name\<close> is the constant \<open>name\<close>; the estimators \<^verbatim>\<open>_kurtosis\<close> and
  \<^verbatim>\<open>_skewness\<close> are \<open>kurtosis_fn\<close> and \<open>skewness_fn\<close>, the record fields having the
  plain names.  The keys \<^verbatim>\<open>time_features\<close> and \<^verbatim>\<open>freq_features\<close> occur in the result of
  \<^verbatim>\<open>preprocess\<close> and in the result of \<^verbatim>\<open>analyze\<close>; the fields carry the prefixes
  \<open>p_\<close> and \<open>r_\<close>.
\<close>

subsection \<open>Errors and data\<close>

datatype error = ValueError | ZeroDivisionError | KeyError | IndexError

record time_features =
  mean :: real
  std :: real
  rms :: real
  peak :: real
  peak_to_peak :: real
  crest_factor :: real
  kurtosis :: real
  skewness :: real

record freq_features =
  peak_frequency :: real
  spectral_power :: real
  frequency_bands :: "(string \<times> real) list"

record fault =
  type :: string
  confidence :: real
  description :: string

record processed =
  signal :: "real list"
  p_time_features :: time_features
  p_freq_features :: freq_features
  sampling_rate :: real

record result =
  fault_score :: real
  damage_level :: string
  is_faulty :: bool
  fault_types :: "fault list"
  recommendations :: "string list"
  r_time_features :: time_features
  r_freq_features :: freq_features

subsection \<open>config.py\<close>

definition FAULT_THRESHOLD :: real where
  "FAULT_THRESHOLD = 0.5"

definition DAMAGE_LEVELS :: "(string \<times> real \<times> real) list" where
  "DAMAGE_LEVELS =
     [(''healthy'', 0.0, 0.2),
      (''slight'', 0.2, 0.4),
      (''moderate'', 0.4, 0.6),
      (''severe'', 0.6, 0.8),
      (''critical'', 0.8, 1.0)]"

subsection \<open>numpy reductions used by the code\<close>

text \<open>
  \<^verbatim>\<open>np.mean\<close> and \<^verbatim>\<open>np.std\<close> (population standard deviation, \<^verbatim>\<open>ddof=0\<close>).  On an
  empty array numpy returns NaN with a warning and does not raise; the model's value
  there is \<open>0\<close>, and no modelled path uses it.
\<close>

definition np_mean :: "real list \<Rightarrow> real" where
  "np_mean xs = sum_list xs / real (length xs)"

definition np_std :: "real list \<Rightarrow> real" where
  "np_std xs = sqrt (np_mean (map (\<lambda>x. \<bar>x - np_mean xs\<bar> ^ 2) xs))"

text \<open>Subscript of a dictionary held as an association list.\<close>

definition getitem :: "(string \<times> 'v) list \<Rightarrow> string \<Rightarrow> error + 'v" where
  "getitem d k = (case map_of d k of None \<Rightarrow> Inl KeyError | Some v \<Rightarrow> Inr v)"

subsection \<open>analyzer.py\<close>

text \<open>\<^verbatim>\<open>VibrationAnalyzer._calculate_fault_score\<close>.\<close>

definition calculate_fault_score :: "time_features \<Rightarrow> freq_features \<Rightarrow> real" where
  "calculate_fault_score tf ff =
     (let rms_score = min (rms tf / 10.0) 1.0;
          kurtosis_score = min (\<bar>kurtosis tf\<bar> / 10.0) 1.0;
          crest_score = min (crest_factor tf / 10.0) 1.0;
          band_powers = frequency_bands ff;
          total_band_power = sum_list (map snd band_powers);
          band_imbalance =
            (if total_band_power > 0
             then np_std (map snd band_powers) / (total_band_power / 3)
             else 0);
          band_score = min band_imbalance 1.0;
          fault_score = 0.3 * rms_score + 0.3 * kurtosis_score
                        + 0.2 * crest_score + 0.2 * band_score
      in min fault_score 1.0)"

text \<open>
  \<^verbatim>\<open>VibrationAnalyzer._classify_damage_level\<close>: the loop over
  \<^verbatim>\<open>self.damage_levels.items()\<close>, with the table as first argument.
\<close>

fun classify_damage_level :: "(string \<times> real \<times> real) list \<Rightarrow> real \<Rightarrow> string" where
  "classify_damage_level [] score = ''critical''"
| "classify_damage_level ((level, low, high) # rest) score =
     (if low \<le> score \<and> score < high then level
      else classify_damage_level rest score)"

text \<open>
  \<^verbatim>\<open>VibrationAnalyzer._detect_fault_types\<close>: the list \<^verbatim>\<open>faults\<close> is threaded through the
  five \<^verbatim>\<open>if\<close> statements; the two subscripts of \<^verbatim>\<open>band_powers\<close> can raise.
\<close>

definition detect_fault_types :: "time_features \<Rightarrow> freq_features \<Rightarrow> error + fault list" where
  "detect_fault_types tf ff =
     (let faults0 = [];
          faults1 =
            (if kurtosis tf > 5
             then faults0 @ [\<lparr>type = ''bearing_fault'',
                              confidence = min (kurtosis tf / 10.0) 1.0,
                              description = ''Possible bearing defect detected''\<rparr>]
             else faults0);
          faults2 =
            (if peak_frequency ff < 100
             then faults1 @ [\<lparr>type = ''unbalance'',
                              confidence = 0.6,
                              description = ''Possible rotor unbalance detected''\<rparr>]
             else faults1);
          band_powers = frequency_bands ff
      in case getitem band_powers ''high'' of
           Inl e \<Rightarrow> Inl e
         | Inr high \<Rightarrow>
             (case getitem band_powers ''low'' of
                Inl e \<Rightarrow> Inl e
              | Inr low \<Rightarrow>
                  (let faults3 =
                         (if high > low * 0.5
                          then faults2 @ [\<lparr>type = ''misalignment'',
                                           confidence = 0.5,
                                           description = ''Possible shaft misalignment detected''\<rparr>]
                          else faults2);
                       faults4 =
                         (if 500 < peak_frequency ff \<and> peak_frequency ff < 2000
                          then faults3 @ [\<lparr>type = ''gear_fault'',
                                           confidence = 0.6,
                                           description = ''Possible gear mesh fault detected''\<rparr>]
                          else faults3);
                       faults5 =
                         (if faults4 = [] \<and> rms tf > 5
                          then faults4 @ [\<lparr>type = ''general_abnormality'',
                                           confidence = 0.5,
                                           description = ''Abnormal vibration levels detected''\<rparr>]
                          else faults4)
                   in Inr faults5)))"

text \<open>
  \<^verbatim>\<open>VibrationAnalyzer._generate_recommendations\<close>: first the \<^verbatim>\<open>if/elif\<close> chain on the
  damage level, then the loop over the fault hypotheses, both appending to
  \<^verbatim>\<open>recommendations\<close>.
\<close>

definition level_recommendations :: "string list \<Rightarrow> string \<Rightarrow> string list" where
  "level_recommendations recs lvl =
     (if lvl = ''healthy''
      then recs @ [''System is operating normally. Continue routine monitoring.'']
      else if lvl = ''slight''
      then recs @ [''Minor abnormalities detected. Increase monitoring frequency.'']
      else if lvl = ''moderate''
      then recs @ [''Moderate wear detected. Schedule inspection within 2-4 weeks.'']
      else if lvl = ''severe''
      then (recs @ [''Severe damage detected. Schedule immediate inspection.''])
             @ [''Consider reducing operational load until maintenance.'']
      else if lvl = ''critical''
      then (recs @ [''CRITICAL: Shutdown recommended to prevent catastrophic failure.''])
             @ [''Immediate maintenance required.'']
      else recs)"

fun fault_recommendations :: "string list \<Rightarrow> fault list \<Rightarrow> string list" where
  "fault_recommendations recs [] = recs"
| "fault_recommendations recs (f # rest) =
     fault_recommendations
       (if type f = ''bearing_fault''
        then recs @ [''Inspect bearings for wear, contamination, or lubrication issues.'']
        else if type f = ''unbalance''
        then recs @ [''Check rotor balance and perform balancing if necessary.'']
        else if type f = ''misalignment''
        then recs @ [''Check shaft alignment and realign if necessary.'']
        else if type f = ''gear_fault''
        then recs @ [''Inspect gear teeth for wear, pitting, or damage.'']
        else recs)
       rest"

definition generate_recommendations :: "string \<Rightarrow> fault list \<Rightarrow> string list" where
  "generate_recommendations lvl fts =
     fault_recommendations (level_recommendations [] lvl) fts"

text \<open>
  \<^verbatim>\<open>VibrationAnalyzer.analyze\<close>, for the analyzer that \<^verbatim>\<open>__init__\<close> builds from
  \<^verbatim>\<open>Config\<close>.
\<close>

definition analyze :: "processed \<Rightarrow> error + result" where
  "analyze processed_data =
     (let tf = p_time_features processed_data;
          ff = p_freq_features processed_data;
          score = calculate_fault_score tf ff;
          lvl = classify_damage_level DAMAGE_LEVELS score
      in case detect_fault_types tf ff of
           Inl e \<Rightarrow> Inl e
         | Inr fts \<Rightarrow>
             Inr \<lparr>fault_score = score,
                  damage_level = lvl,
                  is_faulty = (score > FAULT_THRESHOLD),
                  fault_types = fts,
                  recommendations = generate_recommendations lvl fts,
                  r_time_features = tf,
                  r_freq_features = ff\<rparr>)"

subsection \<open>preprocessor.py\<close>

text \<open>
  The Butterworth design and the zero-phase filtering (\<^verbatim>\<open>scipy.signal.butter\<close> and
  \<^verbatim>\<open>scipy.signal.filtfilt\<close>) are library code.  They enter as a parameter: a function
  of the two normalised cut-offs and the signal that yields \<open>None\<close> when either call
  raises, which is what the bare \<^verbatim>\<open>except\<close> of \<^verbatim>\<open>preprocess\<close> catches.
\<close>

type_synonym bandpass = "real \<Rightarrow> real \<Rightarrow> real list \<Rightarrow> real list option"

text \<open>
  The conditioning steps of \<^verbatim>\<open>DataPreprocessor.preprocess\<close> on a flat numeric
  sequence: mean removal, then the band-pass filter for more than 100 samples.  The
  division \<^verbatim>\<open>10 / nyquist\<close> is outside the \<^verbatim>\<open>try\<close> block and raises for a sampling
  rate of zero.
\<close>

definition condition :: "bandpass \<Rightarrow> real \<Rightarrow> real list \<Rightarrow> error + real list" where
  "condition bp sr data =
     (let signal_data = map (\<lambda>x. x - np_mean data) data
      in if length signal_data > 100
         then (let nyquist = sr / 2
               in if nyquist = 0 then Inl ZeroDivisionError
                  else (let low = 10 / nyquist;
                            high = min (5000 / nyquist) 0.99
                        in case bp low high signal_data of
                             Some filtered \<Rightarrow> Inr filtered
                           | None \<Rightarrow> Inr signal_data))
         else Inr signal_data)"

text \<open>\<^verbatim>\<open>DataPreprocessor._kurtosis\<close> and \<^verbatim>\<open>DataPreprocessor._skewness\<close>.\<close>

definition kurtosis_fn :: "real list \<Rightarrow> real" where
  "kurtosis_fn data =
     (let n = length data
      in if n < 4 then 0.0
         else (let mu = np_mean data; sd = np_std data
               in if sd = 0 then 0.0
                  else (real n * (real n + 1) / ((real n - 1) * (real n - 2) * (real n - 3)))
                         * sum_list (map (\<lambda>x. ((x - mu) / sd) ^ 4) data)
                       - (3 * (real n - 1) ^ 2 / ((real n - 2) * (real n - 3)))))"

definition skewness_fn :: "real list \<Rightarrow> real" where
  "skewness_fn data =
     (let n = length data
      in if n < 3 then 0.0
         else (let mu = np_mean data; sd = np_std data
               in if sd = 0 then 0.0
                  else (real n / ((real n - 1) * (real n - 2)))
                         * sum_list (map (\<lambda>x. ((x - mu) / sd) ^ 3) data)))"

text \<open>
  \<^verbatim>\<open>DataPreprocessor._extract_time_features\<close>.  \<^verbatim>\<open>np.max\<close> and \<^verbatim>\<open>np.ptp\<close> raise
  \<^verbatim>\<open>ValueError\<close> on an empty array.
\<close>

definition np_max :: "real list \<Rightarrow> real" where
  "np_max xs = Max (set xs)"

definition np_ptp :: "real list \<Rightarrow> real" where
  "np_ptp xs = Max (set xs) - Min (set xs)"

definition extract_time_features :: "real list \<Rightarrow> error + time_features" where
  "extract_time_features signal_data =
     (if signal_data = [] then Inl ValueError
      else Inr \<lparr>mean = np_mean signal_data,
                std = np_std signal_data,
                rms = sqrt (np_mean (map (\<lambda>x. x ^ 2) signal_data)),
                peak = np_max (map abs signal_data),
                peak_to_peak = np_ptp signal_data,
                crest_factor =
                  (if np_mean (map (\<lambda>x. x ^ 2) signal_data) > 0
                   then np_max (map abs signal_data)
                          / sqrt (np_mean (map (\<lambda>x. x ^ 2) signal_data))
                   else 0),
                kurtosis = kurtosis_fn signal_data,
                skewness = skewness_fn signal_data\<rparr>)"

text \<open>
  \<^verbatim>\<open>np.fft.rfft\<close>: the one-sided discrete Fourier transform of a real sequence of
  length \<open>n\<close>, bins \<open>0 \<dots> n div 2\<close>.  \<^verbatim>\<open>np.fft.rfftfreq(n, d)\<close>: bin \<open>k\<close> at
  \<open>k \<cdot> (1 / (n \<cdot> d))\<close>.  \<^verbatim>\<open>np.argmax\<close>: the first index of the maximum.
\<close>

definition rfft :: "real list \<Rightarrow> complex list" where
  "rfft xs =
     (let n = length xs
      in map (\<lambda>k. sum_list (map (\<lambda>(j, x). complex_of_real x
                                   * cis (- 2 * pi * real k * real j / real n))
                               (zip [0..<n] xs)))
             [0..<n div 2 + 1])"

definition rfftfreq :: "nat \<Rightarrow> real \<Rightarrow> real list" where
  "rfftfreq n d = map (\<lambda>k. real k * (1.0 / (real n * d))) [0..<n div 2 + 1]"

definition np_argmax :: "real list \<Rightarrow> nat" where
  "np_argmax xs = length (takeWhile (\<lambda>x. x \<noteq> Max (set xs)) xs)"

text \<open>
  \<^verbatim>\<open>DataPreprocessor._compute_band_powers\<close>: the loop over the band table, each round
  storing one entry under a new key.  \<^verbatim>\<open>magnitude[mask]\<close> raises \<^verbatim>\<open>IndexError\<close> when
  the boolean mask and the array differ in length.
\<close>

definition bands :: "(string \<times> real \<times> real) list" where
  "bands = [(''low'', 0, 500), (''mid'', 500, 2000), (''high'', 2000, 5000)]"

definition boolean_index :: "real list \<Rightarrow> bool list \<Rightarrow> error + real list" where
  "boolean_index a msk =
     (if length msk \<noteq> length a then Inl IndexError
      else Inr (map fst (filter snd (zip a msk))))"

fun band_loop ::
  "real list \<Rightarrow> real list \<Rightarrow> (string \<times> real \<times> real) list \<Rightarrow> (string \<times> real) list
     \<Rightarrow> error + (string \<times> real) list" where
  "band_loop freq magnitude [] band_powers = Inr band_powers"
| "band_loop freq magnitude ((band_name, low, high) # rest) band_powers =
     (let msk = map (\<lambda>f. f \<ge> low \<and> f < high) freq
      in case boolean_index magnitude msk of
           Inl e \<Rightarrow> Inl e
         | Inr selected \<Rightarrow>
             band_loop freq magnitude rest
               (band_powers @ [(band_name, sum_list (map (\<lambda>m. m ^ 2) selected))]))"

definition compute_band_powers :: "real list \<Rightarrow> real list \<Rightarrow> error + (string \<times> real) list" where
  "compute_band_powers freq magnitude = band_loop freq magnitude bands []"

text \<open>
  \<^verbatim>\<open>DataPreprocessor._extract_frequency_features\<close>.  \<^verbatim>\<open>np.fft.rfft\<close> raises
  \<^verbatim>\<open>ValueError\<close> on an empty array, and \<^verbatim>\<open>1/self.sampling_rate\<close> raises for a sampling
  rate of zero.
\<close>

definition extract_frequency_features :: "real \<Rightarrow> real list \<Rightarrow> error + freq_features" where
  "extract_frequency_features sr signal_data =
     (if signal_data = [] then Inl ValueError
      else (let fft_vals = rfft signal_data;
                fft_mag = map cmod fft_vals
            in if sr = 0 then Inl ZeroDivisionError
               else (let fft_freq = rfftfreq (length signal_data) (1 / sr);
                         peak_idx = np_argmax fft_mag;
                         peak_freq = fft_freq ! peak_idx;
                         total_power = sum_list (map (\<lambda>m. m ^ 2) fft_mag)
                     in case compute_band_powers fft_freq fft_mag of
                          Inl e \<Rightarrow> Inl e
                        | Inr band_powers \<Rightarrow>
                            Inr \<lparr>peak_frequency = peak_freq,
                                 spectral_power = total_power,
                                 frequency_bands = band_powers\<rparr>)))"

text \<open>\<^verbatim>\<open>DataPreprocessor.preprocess\<close> on a flat numeric sequence.\<close>

definition preprocess :: "bandpass \<Rightarrow> real \<Rightarrow> real list \<Rightarrow> error + processed" where
  "preprocess bp sr data =
     (case condition bp sr data of
        Inl e \<Rightarrow> Inl e
      | Inr signal_data \<Rightarrow>
          (case extract_time_features signal_data of
             Inl e \<Rightarrow> Inl e
           | Inr tf \<Rightarrow>
               (case extract_frequency_features sr signal_data of
                  Inl e \<Rightarrow> Inl e
                | Inr ff \<Rightarrow>
                    Inr \<lparr>signal = signal_data,
                         p_time_features = tf,
                         p_freq_features = ff,
                         sampling_rate = sr\<rparr>)))"

text \<open>
  The pipeline as \<^verbatim>\<open>app.py\<close> and \<^verbatim>\<open>test_system.py\<close> run it: \<^verbatim>\<open>preprocess\<close>, then
  \<^verbatim>\<open>analyze\<close> on its result.
\<close>

definition pipeline :: "bandpass \<Rightarrow> real \<Rightarrow> real list \<Rightarrow> error + result" where
  "pipeline bp sr data =
     (case preprocess bp sr data of
        Inl e \<Rightarrow> Inl e
      | Inr processed_data \<Rightarrow> analyze processed_data)"

subsection \<open>The specification's wording, as definitions\<close>

text \<open>
  The definitions of this subsection follow the words of the specification, not the code;
  the theorems below compare them with the definitions above.
\<close>

text \<open>The first entry of a damage-level table whose half-open interval contains the score.\<close>

definition first_containing ::
  "(string \<times> real \<times> real) list \<Rightarrow> real \<Rightarrow> (string \<times> real \<times> real) option" where
  "first_containing table score =
     find (\<lambda>(level, low, high). low \<le> score \<and> score < high) table"

definition damage_labels :: "string set" where
  "damage_labels = {''healthy'', ''slight'', ''moderate'', ''severe'', ''critical''}"

text \<open>The fixed recommendation strings, keyed by damage level and by fault type.\<close>

definition level_table :: "(string \<times> string list) list" where
  "level_table =
     [(''healthy'', [''System is operating normally. Continue routine monitoring.'']),
      (''slight'', [''Minor abnormalities detected. Increase monitoring frequency.'']),
      (''moderate'', [''Moderate wear detected. Schedule inspection within 2-4 weeks.'']),
      (''severe'', [''Severe damage detected. Schedule immediate inspection.'',
                    ''Consider reducing operational load until maintenance.'']),
      (''critical'', [''CRITICAL: Shutdown recommended to prevent catastrophic failure.'',
                      ''Immediate maintenance required.''])]"

definition fault_table :: "(string \<times> string) list" where
  "fault_table =
     [(''bearing_fault'', ''Inspect bearings for wear, contamination, or lubrication issues.''),
      (''unbalance'', ''Check rotor balance and perform balancing if necessary.''),
      (''misalignment'', ''Check shaft alignment and realign if necessary.''),
      (''gear_fault'', ''Inspect gear teeth for wear, pitting, or damage.'')]"

definition level_strings :: "string \<Rightarrow> string list" where
  "level_strings lvl = (case map_of level_table lvl of Some ss \<Rightarrow> ss | None \<Rightarrow> [])"

definition fault_strings :: "fault \<Rightarrow> string list" where
  "fault_strings f = (case map_of fault_table (type f) of Some s \<Rightarrow> [s] | None \<Rightarrow> [])"

definition specific_types :: "string set" where
  "specific_types = {''bearing_fault'', ''unbalance'', ''misalignment'', ''gear_fault''}"

text \<open>The five fault hypotheses and the rule list of the specification.\<close>

definition bearing_fault_hyp :: "real \<Rightarrow> fault" where
  "bearing_fault_hyp k =
     \<lparr>type = ''bearing_fault'', confidence = min (k / 10) 1,
      description = ''Possible bearing defect detected''\<rparr>"

definition unbalance_hyp :: fault where
  "unbalance_hyp =
     \<lparr>type = ''unbalance'', confidence = 0.6,
      description = ''Possible rotor unbalance detected''\<rparr>"

definition misalignment_hyp :: fault where
  "misalignment_hyp =
     \<lparr>type = ''misalignment'', confidence = 0.5,
      description = ''Possible shaft misalignment detected''\<rparr>"

definition gear_fault_hyp :: fault where
  "gear_fault_hyp =
     \<lparr>type = ''gear_fault'', confidence = 0.6,
      description = ''Possible gear mesh fault detected''\<rparr>"

definition general_abnormality_hyp :: fault where
  "general_abnormality_hyp =
     \<lparr>type = ''general_abnormality'', confidence = 0.5,
      description = ''Abnormal vibration levels detected''\<rparr>"

definition fault_rules_spec :: "real \<Rightarrow> real \<Rightarrow> real \<Rightarrow> real \<Rightarrow> real \<Rightarrow> fault list" where
  "fault_rules_spec k pf hi lo r =
     (if k > 5 then [bearing_fault_hyp k] else [])
     @ (if pf < 100 then [unbalance_hyp] else [])
     @ (if hi > 0.5 * lo then [misalignment_hyp] else [])
     @ (if 500 < pf \<and> pf < 2000 then [gear_fault_hyp] else [])
     @ (if \<not> (k > 5 \<or> pf < 100 \<or> hi > 0.5 * lo \<or> (500 < pf \<and> pf < 2000)) \<and> r > 5
        then [general_abnormality_hyp] else [])"




text \<open>
  The power of one band: the squared magnitudes of the bins whose frequency lies in
  \<open>[low, high)\<close>, summed.
\<close>

definition band_power :: "real list \<Rightarrow> real list \<Rightarrow> real \<Rightarrow> real \<Rightarrow> real" where
  "band_power freq magnitude low high =
     sum_list (map (\<lambda>(f, m). if low \<le> f \<and> f < high then m ^ 2 else 0) (zip freq magnitude))"

text \<open>The sequence with its arithmetic mean subtracted.\<close>

definition zero_mean :: "real list \<Rightarrow> real list" where
  "zero_mean data = map (\<lambda>x. x - sum_list data / real (length data)) data"

subsection \<open>What is assumed of the library filter\<close>

text \<open>
  \<^verbatim>\<open>filtfilt\<close> returns an array of the shape of its input, and a linear filter maps the
  all-zero signal to itself.  Theorems that depend on either say so in a hypothesis.
\<close>

definition length_preserving :: "bandpass \<Rightarrow> bool" where
  "length_preserving bp \<longleftrightarrow>
     (\<forall>low high xs ys. bp low high xs = Some ys \<longrightarrow> length ys = length xs)"

definition zero_fixing :: "bandpass \<Rightarrow> nat \<Rightarrow> bool" where
  "zero_fixing bp n \<longleftrightarrow>
     (\<forall>low high. bp low high (replicate n 0) = None
                 \<or> bp low high (replicate n 0) = Some (replicate n 0))"

subsection \<open>Concrete inputs\<close>

text \<open>
  A filter that has both properties, for the concrete instances below: it raises on
  cut-offs outside \<open>0 < low < high < 1\<close>, as the Butterworth design does, and scales the
  signal otherwise.
\<close>

definition example_bandpass :: bandpass where
  "example_bandpass low high xs =
     (if 0 < low \<and> low < high \<and> high < 1 then Some (map (\<lambda>x. x * high) xs) else None)"

text \<open>The feature records of a signal that is zero everywhere, and its analysis result.\<close>

definition zero_time_features :: time_features where
  "zero_time_features =
     \<lparr>mean = 0, std = 0, rms = 0, peak = 0, peak_to_peak = 0, crest_factor = 0,
      kurtosis = 0, skewness = 0\<rparr>"

definition zero_freq_features :: freq_features where
  "zero_freq_features =
     \<lparr>peak_frequency = 0, spectral_power = 0,
      frequency_bands = [(''low'', 0), (''mid'', 0), (''high'', 0)]\<rparr>"

definition zero_signal_result :: result where
  "zero_signal_result =
     \<lparr>fault_score = 0, damage_level = ''healthy'', is_faulty = False,
      fault_types = [unbalance_hyp],
      recommendations =
        [''System is operating normally. Continue routine monitoring.'',
         ''Check rotor balance and perform balancing if necessary.''],
      r_time_features = zero_time_features,
      r_freq_features = zero_freq_features\<rparr>"

text \<open>
  Scenario 3 of the specification (kurtosis 8, rms 1, crest factor 3, balanced bands), with
  a peak at 50 Hz.
\<close>

definition tf_ex :: time_features where
  "tf_ex = \<lparr>mean = 0, std = 1, rms = 1, peak = 3, peak_to_peak = 6, crest_factor = 3,
            kurtosis = 8, skewness = 0\<rparr>"

definition ff_ex :: freq_features where
  "ff_ex = \<lparr>peak_frequency = 50, spectral_power = 3,
            frequency_bands = [(''low'', 1), (''mid'', 1), (''high'', 1)]\<rparr>"

text \<open>Features on which only the fallback rule fires: rms 6, peak at 200 Hz, low band only.\<close>

definition tf_general :: time_features where
  "tf_general = \<lparr>mean = 0, std = 6, rms = 6, peak = 6, peak_to_peak = 12, crest_factor = 1,
                  kurtosis = 0, skewness = 0\<rparr>"

definition ff_general :: freq_features where
  "ff_general = \<lparr>peak_frequency = 200, spectral_power = 10,
                  frequency_bands = [(''low'', 10), (''mid'', 0), (''high'', 0)]\<rparr>"

section \<open>Damage level and recommendations\<close>

lemma classify_first_containing:
  "classify_damage_level table s =
     (case first_containing table s of
        Some (level, low, high) \<Rightarrow> level
      | None \<Rightarrow> ''critical'')"
  by (induction table s rule: classify_damage_level.induct) (auto simp: first_containing_def)

lemma no_interval_iff:
  "0 \<le> s \<Longrightarrow> s \<le> 1 \<Longrightarrow> (first_containing DAMAGE_LEVELS s = None) = (s = 1)"
  by (auto simp: first_containing_def DAMAGE_LEVELS_def)

lemma classify_labels: "classify_damage_level DAMAGE_LEVELS s \<in> damage_labels"
  by (simp add: DAMAGE_LEVELS_def damage_labels_def)

text \<open>
  C5: for every fault score the damage level is the label of the first entry of the
  table of \<^verbatim>\<open>config.py\<close> whose half-open interval contains the score, and
  \<open>critical\<close> when there is none; for a score in \<open>[0, 1]\<close> there is none exactly
  when the score is \<open>1\<close>.
\<close>

theorem damage_level_first_interval:
  "classify_damage_level DAMAGE_LEVELS s =
     (case first_containing DAMAGE_LEVELS s of
        Some (level, low, high) \<Rightarrow> level
      | None \<Rightarrow> ''critical'')
   \<and> (0 \<le> s \<and> s \<le> 1 \<longrightarrow> (first_containing DAMAGE_LEVELS s = None) = (s = 1))"
proof (intro conjI impI)
  show "classify_damage_level DAMAGE_LEVELS s =
     (case first_containing DAMAGE_LEVELS s of
        Some (level, low, high) \<Rightarrow> level
      | None \<Rightarrow> ''critical'')"
    by (rule classify_first_containing)
next
  assume "0 \<le> s \<and> s \<le> 1"
  then show "(first_containing DAMAGE_LEVELS s = None) = (s = 1)"
    by (simp add: no_interval_iff)
qed

theorem damage_level_first_interval_witness:
  "(0 :: real) \<le> 1 \<and> (1 :: real) \<le> 1
   \<and> first_containing DAMAGE_LEVELS 1 = None
   \<and> classify_damage_level DAMAGE_LEVELS 1 = ''critical''"
  using damage_level_first_interval [of 1] by (simp split: option.splits)

lemma level_recommendations_strings:
  "level_recommendations recs lvl = recs @ level_strings lvl"
  by (simp add: level_recommendations_def level_strings_def level_table_def)

lemma fault_recommendations_strings:
  "fault_recommendations recs fts = recs @ concat (map fault_strings fts)"
  by (induction fts arbitrary: recs) (simp_all add: fault_strings_def fault_table_def)

lemma generate_recommendations_strings:
  "generate_recommendations lvl fts = level_strings lvl @ concat (map fault_strings fts)"
  by (simp add: generate_recommendations_def level_recommendations_strings
      fault_recommendations_strings)

lemma level_strings_length:
  "lvl \<in> damage_labels \<Longrightarrow> length (level_strings lvl) \<in> {1, 2}"
  by (auto simp: level_strings_def level_table_def damage_labels_def)

lemma generate_recommendations_nonempty:
  "lvl \<in> damage_labels \<Longrightarrow> generate_recommendations lvl fts \<noteq> []"
  using level_strings_length [of lvl] by (auto simp: generate_recommendations_strings)

lemma fault_strings_length:
  "length (fault_strings f) = (if type f \<in> specific_types then 1 else 0)"
  by (simp add: fault_strings_def fault_table_def specific_types_def)

lemma concat_fault_strings_length:
  "length (concat (map fault_strings fts))
     = length (filter (\<lambda>f. type f \<in> specific_types) fts)"
  by (induction fts) (simp_all add: fault_strings_length)

text \<open>
  C8, as amended: for each of the five damage levels and every list of fault hypotheses,
  the recommendations are the one or two fixed strings of the level followed, in the order
  of the list, by the fixed string of each hypothesis whose type is one of
  \<open>bearing_fault\<close>, \<open>unbalance\<close>, \<open>misalignment\<close>, \<open>gear_fault\<close>; a hypothesis of any
  other type, \<open>general_abnormality\<close> among them, adds no string.
\<close>

theorem recommendations_level_then_specific_faults:
  assumes "lvl \<in> damage_labels"
  shows "generate_recommendations lvl fts = level_strings lvl @ concat (map fault_strings fts)
         \<and> length (level_strings lvl) \<in> {1, 2}
         \<and> length (generate_recommendations lvl fts)
             = length (level_strings lvl)
               + length (filter (\<lambda>f. type f \<in> specific_types) fts)"
  using level_strings_length [OF assms]
  by (simp add: generate_recommendations_strings concat_fault_strings_length)

theorem recommendations_level_then_specific_faults_witness:
  "''severe'' \<in> damage_labels
   \<and> generate_recommendations ''severe'' [bearing_fault_hyp 8, misalignment_hyp]
       = [''Severe damage detected. Schedule immediate inspection.'',
          ''Consider reducing operational load until maintenance.'',
          ''Inspect bearings for wear, contamination, or lubrication issues.'',
          ''Check shaft alignment and realign if necessary.'']"
  using recommendations_level_then_specific_faults
          [of "''severe''" "[bearing_fault_hyp 8, misalignment_hyp]"]
  by (simp add: level_strings_def level_table_def fault_strings_def fault_table_def
      bearing_fault_hyp_def misalignment_hyp_def damage_labels_def)

text \<open>
  The claim as stated fails where only the fallback rule fires: the detected list holds one
  hypothesis, \<open>general_abnormality\<close>, and the recommendations hold the string of the
  damage level and nothing for the hypothesis.
\<close>

theorem recommendations_general_abnormality_counterexample:
  "detect_fault_types tf_general ff_general = Inr [general_abnormality_hyp]
   \<and> generate_recommendations ''healthy'' [general_abnormality_hyp]
       = [''System is operating normally. Continue routine monitoring.'']
   \<and> length (generate_recommendations ''healthy'' [general_abnormality_hyp])
       \<noteq> length (level_recommendations [] ''healthy'') + length [general_abnormality_hyp]"
  by (simp add: detect_fault_types_def tf_general_def ff_general_def getitem_def Let_def
      general_abnormality_hyp_def generate_recommendations_def level_recommendations_def)

section \<open>Fault types\<close>

lemma detect_fault_types_spec:
  assumes "getitem (frequency_bands ff) ''high'' = Inr hi"
    and "getitem (frequency_bands ff) ''low'' = Inr lo"
  shows "detect_fault_types tf ff =
           Inr (fault_rules_spec (kurtosis tf) (peak_frequency ff) hi lo (rms tf))"
  using assms
  by (simp add: detect_fault_types_def fault_rules_spec_def bearing_fault_hyp_def
      unbalance_hyp_def misalignment_hyp_def gear_fault_hyp_def general_abnormality_hyp_def
      Let_def mult.commute)

text \<open>
  C3: on features whose band dictionary has the keys \<open>high\<close> and \<open>low\<close>, detection
  returns the hypotheses of the four rules that hold, in the order \<open>bearing_fault\<close>,
  \<open>unbalance\<close>, \<open>misalignment\<close>, \<open>gear_fault\<close>, each with its confidence, and
  \<open>general_abnormality\<close> exactly when none of the four holds and \<open>rms > 5\<close>.  Rules
  fire together: three of them do on each of the two inputs of the last two conjuncts.
\<close>

theorem fault_rules_in_order:
  "(getitem (frequency_bands ff) ''high'' = Inr hi
      \<and> getitem (frequency_bands ff) ''low'' = Inr lo
    \<longrightarrow> detect_fault_types tf ff =
          Inr (fault_rules_spec (kurtosis tf) (peak_frequency ff) hi lo (rms tf)))
   \<and> fault_rules_spec 8 50 1 1 0 = [bearing_fault_hyp 8, unbalance_hyp, misalignment_hyp]
   \<and> fault_rules_spec 8 600 1 1 0 = [bearing_fault_hyp 8, misalignment_hyp, gear_fault_hyp]"
  by (simp add: detect_fault_types_spec fault_rules_spec_def)

theorem fault_rules_in_order_witness:
  "getitem (frequency_bands ff_ex) ''high'' = Inr 1
   \<and> getitem (frequency_bands ff_ex) ''low'' = Inr 1
   \<and> detect_fault_types tf_ex ff_ex
       = Inr [bearing_fault_hyp 8, unbalance_hyp, misalignment_hyp]"
  using fault_rules_in_order [of ff_ex 1 1 tf_ex]
  by (simp add: tf_ex_def ff_ex_def getitem_def fault_rules_spec_def)

section \<open>Fault score\<close>




section \<open>Analysis results\<close>

lemma analyze_eq:
  assumes "detect_fault_types (p_time_features p) (p_freq_features p) = Inr fts"
  shows "analyze p =
           Inr \<lparr>fault_score = calculate_fault_score (p_time_features p) (p_freq_features p),
                damage_level = classify_damage_level DAMAGE_LEVELS
                  (calculate_fault_score (p_time_features p) (p_freq_features p)),
                is_faulty = (calculate_fault_score (p_time_features p) (p_freq_features p)
                               > FAULT_THRESHOLD),
                fault_types = fts,
                recommendations = generate_recommendations
                  (classify_damage_level DAMAGE_LEVELS
                     (calculate_fault_score (p_time_features p) (p_freq_features p))) fts,
                r_time_features = p_time_features p,
                r_freq_features = p_freq_features p\<rparr>"
  using assms by (simp add: analyze_def Let_def)

lemma detect_fault_types_zero:
  "detect_fault_types zero_time_features zero_freq_features = Inr [unbalance_hyp]"
  by (simp add: detect_fault_types_def zero_time_features_def zero_freq_features_def
      getitem_def unbalance_hyp_def Let_def)

lemma calculate_fault_score_zero:
  "calculate_fault_score zero_time_features zero_freq_features = 0"
  by (simp add: calculate_fault_score_def zero_time_features_def zero_freq_features_def Let_def)

lemma analyze_zero:
  "analyze \<lparr>signal = w, p_time_features = zero_time_features,
            p_freq_features = zero_freq_features, sampling_rate = sr\<rparr> = Inr zero_signal_result"
  by (simp add: analyze_def Let_def detect_fault_types_zero calculate_fault_score_zero
      DAMAGE_LEVELS_def FAULT_THRESHOLD_def zero_signal_result_def generate_recommendations_def
      level_recommendations_def unbalance_hyp_def)

text \<open>
  C10: every analysis result has a non-empty list of recommendations: its damage level is
  one of the five labels, as the classifier's result is for every score, and each of the
  five labels contributes at least one string.
\<close>

theorem recommendations_nonempty:
  assumes a: "analyze p = Inr r"
  shows "recommendations r \<noteq> []
         \<and> damage_level r \<in> damage_labels
         \<and> (\<forall>s. classify_damage_level DAMAGE_LEVELS s \<in> damage_labels)
         \<and> (\<forall>lvl \<in> damage_labels. level_recommendations [] lvl \<noteq> [])"
proof -
  define lvl where
    "lvl = classify_damage_level DAMAGE_LEVELS
             (calculate_fault_score (p_time_features p) (p_freq_features p))"
  have lvl: "lvl \<in> damage_labels"
    unfolding lvl_def by (rule classify_labels)
  from a obtain fts where
    "damage_level r = lvl" and "recommendations r = generate_recommendations lvl fts"
    by (auto simp: analyze_def Let_def lvl_def split: sum.splits)
  with lvl generate_recommendations_nonempty [OF lvl, of fts]
  have "recommendations r \<noteq> [] \<and> damage_level r \<in> damage_labels" by simp
  moreover have "\<forall>l \<in> damage_labels. level_recommendations [] l \<noteq> []"
    using level_strings_length by (fastforce simp: level_recommendations_strings)
  ultimately show ?thesis
    using classify_labels by blast
qed

theorem recommendations_nonempty_witness:
  "analyze \<lparr>signal = [0, 0, 0], p_time_features = zero_time_features,
            p_freq_features = zero_freq_features, sampling_rate = 12000\<rparr>
     = Inr zero_signal_result
   \<and> recommendations zero_signal_result \<noteq> []
   \<and> damage_level zero_signal_result \<in> damage_labels"
  using recommendations_nonempty [OF analyze_zero [of "[0, 0, 0]" 12000]]
    analyze_zero [of "[0, 0, 0]" 12000]
  by simp

section \<open>Conditioning\<close>

lemma example_length_preserving: "length_preserving example_bandpass"
  by (auto simp: length_preserving_def example_bandpass_def)

lemma example_zero_fixing: "zero_fixing example_bandpass n"
  by (simp add: zero_fixing_def example_bandpass_def)

lemma condition_cases:
  assumes "sr \<noteq> 0"
  shows "condition bp sr data =
           Inr (if length data > 100
                then (case bp (10 / (sr / 2)) (min (5000 / (sr / 2)) 0.99) (zero_mean data) of
                        Some filtered \<Rightarrow> filtered
                      | None \<Rightarrow> zero_mean data)
                else zero_mean data)"
  using assms
  by (simp add: condition_def Let_def zero_mean_def np_mean_def split: option.splits)

lemma condition_length:
  assumes "sr \<noteq> 0" and "length_preserving bp"
  shows "\<exists>w. condition bp sr data = Inr w \<and> length w = length data"
proof -
  have "length (case bp lo hi (zero_mean data) of Some filtered \<Rightarrow> filtered
                | None \<Rightarrow> zero_mean data) = length data" for lo hi
    using assms(2) by (auto simp: length_preserving_def zero_mean_def split: option.splits)
  then show ?thesis
    by (simp add: condition_cases [OF assms(1)] zero_mean_def)
qed

text \<open>
  C7: for a sampling rate other than zero, conditioning returns for every input sequence:
  it subtracts the mean, applies the filter only to more than 100 samples, keeps the
  zero-mean sequence when the filter raises, and, the filter preserving length, returns
  a sequence as long as the input.
\<close>

theorem conditioning_total:
  assumes "sr \<noteq> 0" and "length_preserving bp"
  shows "\<exists>w. condition bp sr data = Inr w
           \<and> length w = length data
           \<and> (length data \<le> 100 \<longrightarrow> w = zero_mean data)
           \<and> (length data > 100 \<longrightarrow>
                 w = (case bp (10 / (sr / 2)) (min (5000 / (sr / 2)) 0.99) (zero_mean data) of
                        Some filtered \<Rightarrow> filtered
                      | None \<Rightarrow> zero_mean data))"
  using condition_length [OF assms, of data]
  by (auto simp: condition_cases [OF assms(1)])

theorem conditioning_total_witness:
  "(12000 :: real) \<noteq> 0 \<and> length_preserving example_bandpass
   \<and> (\<exists>w. condition example_bandpass 12000 (replicate 101 1) = Inr w \<and> length w = 101)"
  using conditioning_total [of 12000 example_bandpass "replicate 101 1"]
    example_length_preserving
  by auto

section \<open>Feature extraction\<close>

lemma sum_list_all_zero:
  fixes f :: "'a \<Rightarrow> 'b::comm_monoid_add"
  shows "(\<And>x. x \<in> set xs \<Longrightarrow> f x = 0) \<Longrightarrow> sum_list (map f xs) = 0"
  by (induction xs) simp_all

lemma length_rfftfreq: "length (rfftfreq n d) = n div 2 + 1"
  by (simp add: rfftfreq_def)


lemma boolean_index_band:
  "length freq = length magnitude \<Longrightarrow>
     sum_list (map ((\<lambda>m. m ^ 2) \<circ> fst)
       (filter snd (zip magnitude (map (\<lambda>f. low \<le> f \<and> f < high) freq))))
     = band_power freq magnitude low high"
  by (induction freq magnitude rule: list_induct2) (simp_all add: band_power_def)

lemma band_loop_eq:
  "length freq = length magnitude \<Longrightarrow>
     band_loop freq magnitude table acc =
       Inr (acc @ map (\<lambda>(name, low, high). (name, band_power freq magnitude low high)) table)"
proof (induction table arbitrary: acc)
  case Nil
  show ?case by simp
next
  case (Cons t table)
  obtain name low high where t: "t = (name, low, high)"
    by (cases t)
  show ?case
    using Cons.prems
    by (simp add: t boolean_index_def boolean_index_band Cons.IH [OF Cons.prems])
qed

lemma compute_band_powers_eq:
  "length freq = length magnitude \<Longrightarrow>
     compute_band_powers freq magnitude =
       Inr [(''low'', band_power freq magnitude 0 500),
            (''mid'', band_power freq magnitude 500 2000),
            (''high'', band_power freq magnitude 2000 5000)]"
  unfolding compute_band_powers_def
  by (subst band_loop_eq) (simp_all add: bands_def)



section \<open>Extracted features and their score\<close>








subsection \<open>The zero signal\<close>

lemma np_mean_zeros: "np_mean (replicate n 0) = 0"
  by (simp add: np_mean_def sum_list_replicate)

lemma np_std_zeros: "np_std (replicate n 0) = 0"
  by (simp add: np_std_def np_mean_zeros)

lemma kurtosis_fn_zeros: "kurtosis_fn (replicate n 0) = 0"
  by (simp add: kurtosis_fn_def Let_def np_std_zeros)

lemma skewness_fn_zeros: "skewness_fn (replicate n 0) = 0"
  by (simp add: skewness_fn_def Let_def np_std_zeros)

lemma extract_time_features_zeros:
  "0 < n \<Longrightarrow> extract_time_features (replicate n 0) = Inr zero_time_features"
  by (simp add: extract_time_features_def zero_time_features_def np_mean_zeros np_std_zeros
      kurtosis_fn_zeros skewness_fn_zeros np_max_def np_ptp_def)

lemma rfft_zeros: "rfft (replicate n 0) = replicate (n div 2 + 1) 0"
proof -
  have "sum_list (map (\<lambda>(j, x). complex_of_real x * cis (- 2 * pi * real k * real j / real n))
          (zip [0..<n] (replicate n 0))) = 0" for k
    by (rule sum_list_all_zero) (auto dest: set_zip_rightD)
  then show ?thesis
    by (simp add: rfft_def Let_def map_replicate_const del: upt_Suc)
qed

lemma np_argmax_zeros: "np_argmax (replicate (Suc m) 0) = 0"
proof -
  have "Max (set (replicate (Suc m) (0::real))) = 0"
    by (simp only: set_replicate_Suc Max_singleton)
  then show ?thesis
    unfolding np_argmax_def by simp
qed

lemma rfftfreq_first: "rfftfreq n d ! 0 = 0"
  by (simp add: rfftfreq_def nth_map del: upt_Suc)

lemma band_power_zeros: "band_power freq (replicate m 0) low high = 0"
  unfolding band_power_def
  by (rule sum_list_all_zero) (auto dest: set_zip_rightD)

lemma extract_frequency_features_zeros:
  assumes "0 < n" and "sr \<noteq> 0"
  shows "extract_frequency_features sr (replicate n 0) = Inr zero_freq_features"
proof -
  define mags where "mags = map cmod (rfft (replicate n 0))"
  have mag: "mags = replicate (Suc (n div 2)) 0"
    by (simp add: mags_def rfft_zeros)
  have bp: "compute_band_powers (rfftfreq n (1 / sr)) mags
            = Inr [(''low'', 0), (''mid'', 0), (''high'', 0)]"
    unfolding mag
    by (subst compute_band_powers_eq) (simp_all only: length_rfftfreq length_replicate
        band_power_zeros Suc_eq_plus1)
  have am: "np_argmax mags = 0"
    unfolding mag by (rule np_argmax_zeros)
  have tp: "sum_list (map (\<lambda>m. m ^ 2) mags) = 0"
    unfolding mag by (rule sum_list_all_zero) auto
  show ?thesis
    using assms
    by (simp add: extract_frequency_features_def Let_def mags_def [symmetric] bp am tp
        rfftfreq_first zero_freq_features_def)
qed

lemma condition_zeros:
  assumes "sr \<noteq> 0" and "zero_fixing bp n"
  shows "condition bp sr (replicate n 0) = Inr (replicate n 0)"
proof -
  have zm: "map (\<lambda>x. x - np_mean (replicate n 0)) (replicate n 0) = replicate n 0"
    by (simp add: np_mean_zeros)
  show ?thesis
    using assms(1) assms(2) [unfolded zero_fixing_def, rule_format,
        of "10 / (sr / 2)" "min (5000 / (sr / 2)) 0.99"]
    by (auto simp add: condition_def Let_def zm simp del: map_replicate)
qed

lemma preprocess_zeros:
  assumes "0 < n" and "sr \<noteq> 0" and "zero_fixing bp n"
  shows "preprocess bp sr (replicate n 0) =
           Inr \<lparr>signal = replicate n 0, p_time_features = zero_time_features,
                p_freq_features = zero_freq_features, sampling_rate = sr\<rparr>"
  using assms
  by (simp add: preprocess_def condition_zeros extract_time_features_zeros
      extract_frequency_features_zeros)

lemma pipeline_zeros:
  assumes "0 < n" and "sr \<noteq> 0" and "zero_fixing bp n"
  shows "pipeline bp sr (replicate n 0) = Inr zero_signal_result"
  by (simp add: pipeline_def preprocess_zeros [OF assms] analyze_zero)

text \<open>
  C4, as amended: for the all-zero signal of length 1000, a sampling rate other than zero
  and a filter that maps the zero signal to itself or raises, every time-domain feature
  is \<open>0\<close>, the fault score is \<open>0\<close>, the damage level is \<open>healthy\<close>, and the list of
  detected fault types holds exactly the \<open>unbalance\<close> hypothesis with confidence
  \<open>0.6\<close>: the peak frequency of the zero spectrum is bin \<open>0\<close>, below 100 Hz.
\<close>

theorem zero_signal_result_unbalance:
  assumes "sr \<noteq> 0" and "zero_fixing bp 1000"
  shows "pipeline bp sr (replicate 1000 0) =
           Inr \<lparr>fault_score = 0, damage_level = ''healthy'', is_faulty = False,
                fault_types =
                  [\<lparr>type = ''unbalance'', confidence = 0.6,
                    description = ''Possible rotor unbalance detected''\<rparr>],
                recommendations =
                  [''System is operating normally. Continue routine monitoring.'',
                   ''Check rotor balance and perform balancing if necessary.''],
                r_time_features =
                  \<lparr>mean = 0, std = 0, rms = 0, peak = 0, peak_to_peak = 0, crest_factor = 0,
                   kurtosis = 0, skewness = 0\<rparr>,
                r_freq_features =
                  \<lparr>peak_frequency = 0, spectral_power = 0,
                   frequency_bands = [(''low'', 0), (''mid'', 0), (''high'', 0)]\<rparr>\<rparr>"
  using pipeline_zeros [of 1000 sr bp] assms
  by (simp add: zero_signal_result_def zero_time_features_def zero_freq_features_def
      unbalance_hyp_def)

theorem zero_signal_result_unbalance_witness:
  "(12000 :: real) \<noteq> 0 \<and> zero_fixing example_bandpass 1000
   \<and> map_sum id fault_score (pipeline example_bandpass 12000 (replicate 1000 0)) = Inr 0
   \<and> map_sum id damage_level (pipeline example_bandpass 12000 (replicate 1000 0))
       = Inr ''healthy''"
  using zero_signal_result_unbalance [of 12000 example_bandpass]
    example_zero_fixing [of 1000]
  by simp

text \<open>
  The claim as stated fails: on the all-zero signal of length 1000 the list of detected
  fault types is not empty.
\<close>

theorem zero_signal_fault_types_counterexample:
  "map_sum id fault_types (pipeline example_bandpass 12000 (replicate 1000 0))
     = Inr [unbalance_hyp]
   \<and> map_sum id fault_types (pipeline example_bandpass 12000 (replicate 1000 0)) \<noteq> Inr []"
  using pipeline_zeros [of 1000 12000 example_bandpass] example_zero_fixing [of 1000]
  by (simp add: zero_signal_result_def)

text \<open>
  Below their minimum lengths the two estimators return \<open>0\<close> before any arithmetic, and
  neither has an error result.
\<close>

lemma estimators_zero_on_short_input:
  "(length xs < 4 \<longrightarrow> kurtosis_fn xs = 0) \<and> (length xs < 3 \<longrightarrow> skewness_fn xs = 0)"
  by (simp add: kurtosis_fn_def skewness_fn_def)

end
